theory Spec2Isabelle
  imports Main
begin

section \<open>Data model\<close>

text \<open>
  The subscription and credit synchronisation code of \<^verbatim>\<open>src/App.tsx\<close>: the component
  \<^verbatim>\<open>App\<close> (credits, language and the initialisation flag, each mirrored into a
  \<^verbatim>\<open>window\<close> global) and the component \<^verbatim>\<open>AppContent\<close> (subscription status and its
  own copy of credits and language). The gateway (Supabase) is outside the code: each
  of its answers is an argument of the function that awaits it, and each async function
  is taken to run from its call to its end, the requests it sends and the console lines
  it writes being recorded in the state. Loading flags, toasts and the invalidation of
  the query cache are left out.

  A row of the table \<^verbatim>\<open>subscriptions\<close>. Credits are JavaScript numbers holding
  integers; the column is taken to be a non-null integer, so \<^verbatim>\<open>row?.credits ?? d\<close>
  yields \<open>d\<close> exactly when the row is missing. \<^verbatim>\<open>preferred_language\<close> may be null.
\<close>

type_synonym user_id = string

record row =
  row_user_id :: user_id
  row_credits :: int
  row_preferred_language :: "string option"

text \<open>
  What a query of the gateway resolves to: \<^verbatim>\<open>{ data, error }\<close>. With \<^verbatim>\<open>.single()\<close> a
  missing row is \<^verbatim>\<open>data: null\<close> together with an error, with \<^verbatim>\<open>.maybeSingle()\<close> it is
  \<^verbatim>\<open>data: null\<close> without one; a failed request is \<^verbatim>\<open>data: null\<close> with an error.
\<close>

record response =
  data :: "row option"
  error :: "string option"

text \<open>A change event of the push feed, with its old and new snapshots.\<close>

datatype change_event =
    INSERT row
  | UPDATE row row
  | DELETE row

text \<open>
  A live feed subscription: \<^verbatim>\<open>supabase.channel("credits")\<close> of \<^verbatim>\<open>App\<close>, filtered to one
  user and to UPDATE events, and \<^verbatim>\<open>supabase.channel(`sub-and-credits-${user?.id}`)\<close> of
  \<^verbatim>\<open>AppContent\<close>, for every event type, filtered to the user when there is one.
\<close>

datatype channel =
    credits_channel user_id
  | sub_and_credits_channel "user_id option"

text \<open>Requests sent to the gateway, and lines written with \<^verbatim>\<open>console.warn/error\<close>.\<close>

datatype request =
    GetUser
  | SelectSingle user_id
  | SelectMaybeSingle "user_id option"
  | UpdateCredits user_id int

datatype console_line =
    Warn string
  | Error string

text \<open>How an async handler ends: its promise resolves (with no value) or rejects.\<close>

datatype completion =
    Resolved
  | Rejected string

text \<open>
  The state the code reads and writes. \<open>credits\<close>, \<open>currentLanguage\<close> and
  \<open>isInitialized\<close> are the \<^verbatim>\<open>useState\<close> cells of \<^verbatim>\<open>App\<close>; the three \<open>window_\<close> fields
  are \<^verbatim>\<open>window.__CREDITS__\<close>, \<^verbatim>\<open>window.__LANGUAGE__\<close> and
  \<^verbatim>\<open>window.__IS_INITIALIZED__\<close> (\<open>None\<close>: not yet assigned); \<open>user\<close>,
  \<open>isSubscribed\<close>, \<open>AppContent_credits\<close> (\<open>None\<close>: \<^verbatim>\<open>undefined\<close>) and
  \<open>AppContent_currentLanguage\<close> are the cells of \<^verbatim>\<open>AppContent\<close>. \<open>channels\<close> are
  the subscribed channels, \<open>listeners\<close> the callbacks registered with
  \<^verbatim>\<open>window.electronAPI.onSolutionSuccess\<close>, each with the \<^verbatim>\<open>isInitialized\<close> and
  \<^verbatim>\<open>user.id\<close> its closure captured. \<open>App_effect_deps\<close> is the value of
  \<^verbatim>\<open>isInitialized\<close> at the last run of the effect of \<^verbatim>\<open>App\<close> (the other entries of its
  dependency array are \<^verbatim>\<open>useCallback\<close> results with empty dependencies, which never
  change), \<open>AppContent_effect_deps\<close> the value of \<^verbatim>\<open>user?.id\<close> at the last run of the
  second effect of \<^verbatim>\<open>AppContent\<close>; both are \<open>None\<close> before the first run.
\<close>

record world =
  credits :: int
  currentLanguage :: string
  isInitialized :: bool
  window_CREDITS :: "int option"
  window_LANGUAGE :: "string option"
  window_IS_INITIALIZED :: "bool option"
  user :: "user_id option"
  isSubscribed :: bool
  AppContent_credits :: "int option"
  AppContent_currentLanguage :: string
  channels :: "channel list"
  listeners :: "(bool \<times> user_id) list"
  App_effect_deps :: "bool option"
  AppContent_effect_deps :: "user_id option option"
  requests :: "request list"
  console :: "console_line list"

text \<open>
  The state at the start: the initial values of the \<^verbatim>\<open>useState\<close> cells, nothing
  assigned to the window globals, nothing subscribed or registered.
\<close>

definition initial_world :: world where
  "initial_world =
     \<lparr>credits = 0, currentLanguage = ''python'', isInitialized = False,
      window_CREDITS = None, window_LANGUAGE = None, window_IS_INITIALIZED = None,
      user = None, isSubscribed = False, AppContent_credits = None,
      AppContent_currentLanguage = ''python'',
      channels = [], listeners = [], App_effect_deps = None,
      AppContent_effect_deps = None,
      requests = [], console = []\<rparr>"

section \<open>App: the three helpers\<close>

definition updateCredits :: "int \<Rightarrow> world \<Rightarrow> world" where
  "updateCredits newCredits w = w\<lparr>credits := newCredits, window_CREDITS := Some newCredits\<rparr>"

definition updateLanguage :: "string \<Rightarrow> world \<Rightarrow> world" where
  "updateLanguage newLanguage w =
     w\<lparr>currentLanguage := newLanguage, window_LANGUAGE := Some newLanguage\<rparr>"

definition markInitialized :: "world \<Rightarrow> world" where
  "markInitialized w = w\<lparr>isInitialized := True, window_IS_INITIALIZED := Some True\<rparr>"

section \<open>App: the feed callback and the debit handler\<close>

text \<open>
  The callback of the \<^verbatim>\<open>credits\<close> channel, on the new snapshot of an UPDATE event.
\<close>

definition credits_channel_callback :: "row \<Rightarrow> world \<Rightarrow> world" where
  "credits_channel_callback payload_new w = updateCredits (row_credits payload_new) w"

text \<open>
  The callback given to \<^verbatim>\<open>onSolutionSuccess\<close>. \<open>isInit\<close> and \<open>uid\<close> are the
  \<^verbatim>\<open>isInitialized\<close> and \<^verbatim>\<open>user.id\<close> of its closure; \<open>sel\<close> is the gateway's answer to
  the read of the current credits and \<open>upd n\<close> its answer to \<^verbatim>\<open>update({ credits: n })\<close>.
  The read's \<^verbatim>\<open>error\<close> is not destructured. With neither an error nor a row in the
  update's answer, \<^verbatim>\<open>updatedSubscription.credits\<close> throws.
\<close>

definition onSolutionSuccess_callback ::
  "bool \<Rightarrow> user_id \<Rightarrow> response \<Rightarrow> (int \<Rightarrow> response) \<Rightarrow> world \<Rightarrow> completion \<times> world" where
  "onSolutionSuccess_callback isInit uid sel upd w =
     (if \<not> isInit then
        (Resolved,
         w\<lparr>console := console w @ [Warn ''Attempted to decrement credits before initialization'']\<rparr>)
      else
        (let w1 = w\<lparr>requests := requests w @ [SelectSingle uid]\<rparr> in
         (case data sel of
            None \<Rightarrow>
              (Resolved,
               w1\<lparr>console := console w1 @
                  [Error ''No subscription found when trying to decrement credits'']\<rparr>)
          | Some currentSubscription \<Rightarrow>
              (let n = row_credits currentSubscription - 1;
                   w2 = w1\<lparr>requests := requests w1 @ [UpdateCredits uid n]\<rparr>
               in (case error (upd n) of
                     Some e \<Rightarrow>
                       (Resolved,
                        w2\<lparr>console := console w2 @ [Error (''Error updating credits: '' @ e)]\<rparr>)
                   | None \<Rightarrow>
                       (case data (upd n) of
                          None \<Rightarrow> (Rejected ''TypeError'', w2)
                        | Some updatedSubscription \<Rightarrow>
                            (Resolved, updateCredits (row_credits updatedSubscription) w2)))))))"

section \<open>App: initialisation, its cleanup and the effect\<close>

text \<open>
  \<^verbatim>\<open>initializeAndSubscribe\<close>. \<open>isInit\<close> is the \<^verbatim>\<open>isInitialized\<close> of the render whose
  effect runs it, \<open>authUser\<close> what \<^verbatim>\<open>supabase.auth.getUser()\<close> resolves to, \<open>sel\<close>
  the answer to the initial fetch (only its \<^verbatim>\<open>data\<close> is destructured). The second
  component is what the function returns: nothing without a user, otherwise the cleanup
  function, given by the channel and the listener it closes over.
\<close>

definition initializeAndSubscribe ::
  "bool \<Rightarrow> user_id option \<Rightarrow> response \<Rightarrow> world \<Rightarrow> world \<times> (channel \<times> bool \<times> user_id) option" where
  "initializeAndSubscribe isInit authUser sel w =
     (let w0 = w\<lparr>requests := requests w @ [GetUser]\<rparr> in
      case authUser of
        None \<Rightarrow> (markInitialized (updateLanguage ''python'' (updateCredits 1 w0)), None)
      | Some uid \<Rightarrow>
          let w1 = w0\<lparr>requests := requests w0 @ [SelectSingle uid]\<rparr>;
              w2 = updateCredits (case data sel of None \<Rightarrow> 1 | Some s \<Rightarrow> row_credits s) w1;
              w3 = updateLanguage
                     (case data sel of
                        None \<Rightarrow> ''python''
                      | Some s \<Rightarrow>
                          (case row_preferred_language s of None \<Rightarrow> ''python'' | Some l \<Rightarrow> l))
                     w2;
              w4 = markInitialized w3;
              w5 = w4\<lparr>channels := channels w4 @ [credits_channel uid]\<rparr>;
              w6 = w5\<lparr>listeners := listeners w5 @ [(isInit, uid)]\<rparr>
          in (w6, Some (credits_channel uid, isInit, uid)))"

text \<open>The body of the cleanup function that \<^verbatim>\<open>initializeAndSubscribe\<close> returns.\<close>

definition cleanup :: "channel \<times> bool \<times> user_id \<Rightarrow> world \<Rightarrow> world" where
  "cleanup c w =
     w\<lparr>channels := remove1 (fst c) (channels w),
       listeners := remove1 (snd c) (listeners w),
       window_IS_INITIALIZED := Some False,
       isInitialized := False\<rparr>"

text \<open>
  The effect of \<^verbatim>\<open>App\<close>: its callback is \<^verbatim>\<open>() => { ...; initializeAndSubscribe() }\<close>, a
  block with no \<^verbatim>\<open>return\<close>. The promise of \<^verbatim>\<open>initializeAndSubscribe\<close>, and with it the
  cleanup function, is dropped, and the effect hands no cleanup to React.
\<close>

definition App_effect :: "user_id option \<Rightarrow> response \<Rightarrow> world \<Rightarrow> world" where
  "App_effect authUser sel w = fst (initializeAndSubscribe (isInitialized w) authUser sel w)"

definition App_effect_cleanup :: "(channel \<times> bool \<times> user_id) option" where
  "App_effect_cleanup = None"

text \<open>
  A commit of \<^verbatim>\<open>App\<close>: React runs the effect after the first render and after a render
  in which an entry of the dependency array changed, here \<^verbatim>\<open>isInitialized\<close>; before a
  re-run it calls the cleanup the previous run handed over, if any.
\<close>

definition App_commit :: "user_id option \<Rightarrow> response \<Rightarrow> world \<Rightarrow> world" where
  "App_commit authUser sel w =
     (if App_effect_deps w = Some (isInitialized w) then w
      else
        let w1 = (case App_effect_cleanup of None \<Rightarrow> w | Some c \<Rightarrow> cleanup c w)
        in App_effect authUser sel (w1\<lparr>App_effect_deps := Some (isInitialized w)\<rparr>))"

section \<open>AppContent: subscription check, feed callback and effect\<close>

text \<open>
  \<^verbatim>\<open>if (x.preferred_language) { setCurrentLanguage(...); window.__LANGUAGE__ = ... }\<close>, as
  it stands three times in \<^verbatim>\<open>AppContent\<close>: null and the empty string are falsy.
\<close>

definition setCurrentLanguage_if_truthy :: "string option \<Rightarrow> world \<Rightarrow> world" where
  "setCurrentLanguage_if_truthy preferred_language w =
     (case preferred_language of
        None \<Rightarrow> w
      | Some l \<Rightarrow>
          if l = [] then w
          else w\<lparr>AppContent_currentLanguage := l, window_LANGUAGE := Some l\<rparr>)"

text \<open>
  \<^verbatim>\<open>checkSubscriptionAndCredits\<close>, with \<open>sel\<close> the answer to its \<^verbatim>\<open>maybeSingle()\<close>
  read; \<^verbatim>\<open>!user?.id\<close> holds without a user and for an empty id.
\<close>

definition checkSubscriptionAndCredits :: "response \<Rightarrow> world \<Rightarrow> world" where
  "checkSubscriptionAndCredits sel w =
     (if (case user w of None \<Rightarrow> True | Some uid \<Rightarrow> uid = []) then
        w\<lparr>isSubscribed := False, AppContent_credits := Some 0,
          AppContent_currentLanguage := ''python''\<rparr>
      else
        let w1 = w\<lparr>requests := requests w @ [SelectMaybeSingle (user w)]\<rparr>;
            w2 = w1\<lparr>isSubscribed := (data sel \<noteq> None)\<rparr>;
            w3 = w2\<lparr>AppContent_credits :=
                      Some (case data sel of None \<Rightarrow> 0 | Some s \<Rightarrow> row_credits s)\<rparr>
        in case data sel of
             None \<Rightarrow> w3
           | Some s \<Rightarrow> setCurrentLanguage_if_truthy (row_preferred_language s) w3)"

text \<open>
  The callback of the \<^verbatim>\<open>sub-and-credits\<close> channel. \<open>u\<close> is the \<^verbatim>\<open>user\<close> of its closure,
  \<open>sel\<close> the answer to the read it issues on a DELETE or UPDATE event. An INSERT event
  is applied when \<^verbatim>\<open>payload.new?.user_id === user?.id\<close>.
\<close>

definition sub_and_credits_callback ::
  "user_id option \<Rightarrow> change_event \<Rightarrow> response \<Rightarrow> world \<Rightarrow> world" where
  "sub_and_credits_callback u ev sel w =
     (let wa =
            (case ev of
               INSERT new \<Rightarrow> w
             | _ \<Rightarrow>
                 let w1 = w\<lparr>requests := requests w @ [SelectMaybeSingle u]\<rparr>;
                     w2 = w1\<lparr>isSubscribed := (data sel \<noteq> None)\<rparr>;
                     w3 = w2\<lparr>AppContent_credits :=
                               Some (case data sel of None \<Rightarrow> 0 | Some s \<Rightarrow> row_credits s)\<rparr>
                 in (case data sel of
                       None \<Rightarrow> w3
                     | Some s \<Rightarrow> setCurrentLanguage_if_truthy (row_preferred_language s) w3))
      in case ev of
           INSERT new \<Rightarrow>
             if Some (row_user_id new) = u then
               setCurrentLanguage_if_truthy (row_preferred_language new)
                 (wa\<lparr>isSubscribed := True, AppContent_credits := Some (row_credits new)\<rparr>)
             else wa
         | _ \<Rightarrow> wa)"

text \<open>
  The second effect of \<^verbatim>\<open>AppContent\<close> and the cleanup it returns to React, which
  unsubscribes the channel of that run.
\<close>

definition AppContent_effect :: "response \<Rightarrow> world \<Rightarrow> world" where
  "AppContent_effect sel w =
     (let w1 = checkSubscriptionAndCredits sel w
      in w1\<lparr>channels := channels w1 @ [sub_and_credits_channel (user w)]\<rparr>)"

definition AppContent_effect_cleanup :: "user_id option \<Rightarrow> world \<Rightarrow> world" where
  "AppContent_effect_cleanup u w =
     w\<lparr>channels := remove1 (sub_and_credits_channel u) (channels w)\<rparr>"

text \<open>
  A commit of \<^verbatim>\<open>AppContent\<close>: the effect depends on \<^verbatim>\<open>user?.id\<close>; before a re-run React
  calls the cleanup of the previous run.
\<close>

definition AppContent_commit :: "response \<Rightarrow> world \<Rightarrow> world" where
  "AppContent_commit sel w =
     (if AppContent_effect_deps w = Some (user w) then w
      else
        let w1 = (case AppContent_effect_deps w of
                    None \<Rightarrow> w
                  | Some u \<Rightarrow> AppContent_effect_cleanup u w)
        in AppContent_effect sel (w1\<lparr>AppContent_effect_deps := Some (user w)\<rparr>))"

text \<open>
  The listener of \<^verbatim>\<open>supabase.auth.onAuthStateChange\<close>: \<^verbatim>\<open>setUser(session?.user ?? null)\<close>,
  followed by the commit it causes. \<^verbatim>\<open>App\<close> does not read the user outside
  \<^verbatim>\<open>initializeAndSubscribe\<close> and none of its dependencies changes, so its commit is the
  only other thing that happens.
\<close>

definition onAuthStateChange ::
  "user_id option \<Rightarrow> response \<Rightarrow> user_id option \<Rightarrow> response \<Rightarrow> world \<Rightarrow> world" where
  "onAuthStateChange session_user sel authUser sel_App w =
     App_commit authUser sel_App (AppContent_commit sel (w\<lparr>user := session_user\<rparr>))"

section \<open>Delivery of change events\<close>

text \<open>
  The feed delivers an event to every subscribed channel whose event type and filter
  match: the \<^verbatim>\<open>credits\<close> channel takes UPDATE events of its user, the
  \<^verbatim>\<open>sub-and-credits\<close> channel every event of its user, and every event when its filter
  is \<^verbatim>\<open>undefined\<close>.
\<close>

fun event_user_id :: "change_event \<Rightarrow> user_id" where
  "event_user_id (INSERT new) = row_user_id new"
| "event_user_id (UPDATE old new) = row_user_id new"
| "event_user_id (DELETE old) = row_user_id old"

fun channel_receives :: "channel \<Rightarrow> change_event \<Rightarrow> bool" where
  "channel_receives (credits_channel f) (UPDATE old new) = (row_user_id new = f)"
| "channel_receives (credits_channel f) ev = False"
| "channel_receives (sub_and_credits_channel None) ev = True"
| "channel_receives (sub_and_credits_channel (Some f)) ev = (f = [] \<or> event_user_id ev = f)"

fun channel_callback :: "channel \<Rightarrow> change_event \<Rightarrow> response \<Rightarrow> world \<Rightarrow> world" where
  "channel_callback (credits_channel f) (UPDATE old new) sel w = credits_channel_callback new w"
| "channel_callback (credits_channel f) ev sel w = w"
| "channel_callback (sub_and_credits_channel u) ev sel w = sub_and_credits_callback u ev sel w"

definition postgres_changes :: "change_event \<Rightarrow> response \<Rightarrow> world \<Rightarrow> world" where
  "postgres_changes ev sel w =
     fold (\<lambda>c w'. if channel_receives c ev then channel_callback c ev sel w' else w')
       (channels w) w"

section \<open>Delivery of the success signal\<close>


section \<open>Runs of the core operations\<close>

text \<open>
  The three operations of \<^verbatim>\<open>App\<close> on its state: a run of the effect, the feed callback
  on a new snapshot, and the debit handler with the flag and user of some closure.
\<close>

datatype core_op =
    Initialize "user_id option" response
  | FeedEvent row
  | Debit bool user_id response "int \<Rightarrow> response"

fun step :: "core_op \<Rightarrow> world \<Rightarrow> world" where
  "step (Initialize authUser sel) w = App_effect authUser sel w"
| "step (FeedEvent payload_new) w = credits_channel_callback payload_new w"
| "step (Debit isInit uid sel upd) w = snd (onSolutionSuccess_callback isInit uid sel upd w)"

definition run :: "core_op list \<Rightarrow> world \<Rightarrow> world" where
  "run ops w = fold step ops w"

text \<open>Every credits value the gateway hands to the operation is at least 0.\<close>

fun nonneg_op :: "core_op \<Rightarrow> bool" where
  "nonneg_op (Initialize authUser sel) =
     (case data sel of None \<Rightarrow> True | Some s \<Rightarrow> 0 \<le> row_credits s)"
| "nonneg_op (FeedEvent payload_new) = (0 \<le> row_credits payload_new)"
| "nonneg_op (Debit isInit uid sel upd) =
     (case data sel of
        None \<Rightarrow> True
      | Some cur \<Rightarrow>
          (case data (upd (row_credits cur - 1)) of
             None \<Rightarrow> True
           | Some r \<Rightarrow> 0 \<le> row_credits r))"

definition credits_nonneg :: "world \<Rightarrow> bool" where
  "credits_nonneg w =
     (0 \<le> credits w \<and> (case window_CREDITS w of None \<Rightarrow> True | Some c \<Rightarrow> 0 \<le> c))"

text \<open>The window globals hold what the state cells of \<^verbatim>\<open>App\<close> hold.\<close>

definition mirrored :: "world \<Rightarrow> bool" where
  "mirrored w =
     (window_CREDITS w = Some (credits w) \<and>
      window_LANGUAGE w = Some (currentLanguage w) \<and>
      window_IS_INITIALIZED w = Some (isInitialized w))"

section \<open>Gateway answers and scenarios\<close>

text \<open>
  A row of a user with \<open>n\<close> credits; the answer of a gateway that finds (or, asked to
  update, stores and returns) that row; an answer carrying only an error; a gateway that
  refuses every update.
\<close>

definition subscription_row :: "user_id \<Rightarrow> int \<Rightarrow> row" where
  "subscription_row uid n =
     \<lparr>row_user_id = uid, row_credits = n, row_preferred_language = Some ''python''\<rparr>"

definition found :: "user_id \<Rightarrow> int \<Rightarrow> response" where
  "found uid n = \<lparr>data = Some (subscription_row uid n), error = None\<rparr>"

definition failed :: "string \<Rightarrow> response" where
  "failed e = \<lparr>data = None, error = Some e\<rparr>"

definition refused :: "string \<Rightarrow> int \<Rightarrow> response" where
  "refused e n = failed e"

text \<open>
  The application started with user A signed in, whose row holds 5 credits:
  \<^verbatim>\<open>AppContent\<close> mounts without a user, the effect of \<^verbatim>\<open>App\<close> runs, runs again because
  \<^verbatim>\<open>isInitialized\<close> changed, and the auth listener reports A.
\<close>

definition signed_in_A :: world where
  "signed_in_A =
     onAuthStateChange (Some ''A'') (found ''A'' 5) (Some ''A'') (found ''A'' 5)
       (App_commit (Some ''A'') (found ''A'' 5)
         (App_commit (Some ''A'') (found ''A'' 5)
           (AppContent_commit (failed ''no user'') initial_world)))"

text \<open>
  The application started with user A signed in, who has no row: both runs of the effect
  of \<^verbatim>\<open>App\<close> read no data.
\<close>

definition signed_in_without_row :: world where
  "signed_in_without_row =
     onAuthStateChange (Some ''A'') \<lparr>data = None, error = None\<rparr> (Some ''A'') (failed ''PGRST116'')
       (App_commit (Some ''A'') (failed ''PGRST116'')
         (App_commit (Some ''A'') (failed ''PGRST116'')
           (AppContent_commit (failed ''no user'') initial_world)))"


text \<open>A row of A with 4 credits and the language \<^verbatim>\<open>java\<close>.\<close>

definition java_row :: row where
  "java_row = \<lparr>row_user_id = ''A'', row_credits = 4, row_preferred_language = Some ''java''\<rparr>"

text \<open>Then A signs out and B, whose row holds 7 credits, signs in.\<close>

definition switched_to_B :: world where
  "switched_to_B =
     onAuthStateChange (Some ''B'') (found ''B'' 7) (Some ''B'') (found ''B'' 7)
       (onAuthStateChange None (failed ''no user'') None (failed ''no user'') signed_in_A)"

section \<open>Evaluation of the scenarios\<close>

lemmas model_defs =
  initializeAndSubscribe_def updateCredits_def updateLanguage_def markInitialized_def
  App_effect_def App_commit_def App_effect_cleanup_def AppContent_commit_def
  AppContent_effect_def AppContent_effect_cleanup_def checkSubscriptionAndCredits_def
  setCurrentLanguage_if_truthy_def onAuthStateChange_def credits_channel_callback_def
  sub_and_credits_callback_def onSolutionSuccess_callback_def postgres_changes_def Let_def

lemmas answer_defs = found_def failed_def refused_def subscription_row_def java_row_def

lemma signed_in_A_eq:
  "signed_in_A =
     \<lparr>credits = 5, currentLanguage = ''python'', isInitialized = True,
      window_CREDITS = Some 5, window_LANGUAGE = Some ''python'',
      window_IS_INITIALIZED = Some True, user = Some ''A'',
      isSubscribed = True, AppContent_credits = Some 5,
      AppContent_currentLanguage = ''python'',
      channels =
        [credits_channel ''A'', credits_channel ''A'', sub_and_credits_channel (Some ''A'')],
      listeners = [(False, ''A''), (True, ''A'')],
      App_effect_deps = Some True, AppContent_effect_deps = Some (Some ''A''),
      requests =
        [GetUser, SelectSingle ''A'', GetUser, SelectSingle ''A'',
         SelectMaybeSingle (Some ''A'')],
      console = []\<rparr>"
  by (simp add: signed_in_A_def initial_world_def model_defs answer_defs)

lemma switched_to_B_eq:
  "switched_to_B =
     \<lparr>credits = 5, currentLanguage = ''python'', isInitialized = True,
      window_CREDITS = Some 5, window_LANGUAGE = Some ''python'',
      window_IS_INITIALIZED = Some True, user = Some ''B'',
      isSubscribed = True, AppContent_credits = Some 7,
      AppContent_currentLanguage = ''python'',
      channels =
        [credits_channel ''A'', credits_channel ''A'', sub_and_credits_channel (Some ''B'')],
      listeners = [(False, ''A''), (True, ''A'')],
      App_effect_deps = Some True, AppContent_effect_deps = Some (Some ''B''),
      requests =
        [GetUser, SelectSingle ''A'', GetUser, SelectSingle ''A'',
         SelectMaybeSingle (Some ''A''), SelectMaybeSingle (Some ''B'')],
      console = []\<rparr>"
  unfolding switched_to_B_def signed_in_A_eq
  by (simp add: model_defs answer_defs)

lemma signed_in_without_row_eq:
  "signed_in_without_row =
     \<lparr>credits = 1, currentLanguage = ''python'', isInitialized = True,
      window_CREDITS = Some 1, window_LANGUAGE = Some ''python'',
      window_IS_INITIALIZED = Some True, user = Some ''A'',
      isSubscribed = False, AppContent_credits = Some 0,
      AppContent_currentLanguage = ''python'',
      channels =
        [credits_channel ''A'', credits_channel ''A'', sub_and_credits_channel (Some ''A'')],
      listeners = [(False, ''A''), (True, ''A'')],
      App_effect_deps = Some True, AppContent_effect_deps = Some (Some ''A''),
      requests =
        [GetUser, SelectSingle ''A'', GetUser, SelectSingle ''A'',
         SelectMaybeSingle (Some ''A'')],
      console = []\<rparr>"
  by (simp add: signed_in_without_row_def initial_world_def model_defs answer_defs)


section \<open>The debit handler\<close>

lemma step_listeners_initialized:
  assumes "isInitialized w \<or> listeners w = []"
  shows "isInitialized (step op w) \<or> listeners (step op w) = []"
proof (cases op)
  case (Initialize authUser sel)
  then show ?thesis
    by (cases authUser)
      (simp_all add: App_effect_def initializeAndSubscribe_def updateCredits_def
        updateLanguage_def markInitialized_def Let_def)
next
  case (FeedEvent payload_new)
  with assms show ?thesis
    by (simp add: credits_channel_callback_def updateCredits_def)
next
  case (Debit isInit uid sel upd)
  with assms show ?thesis
    by (simp add: onSolutionSuccess_callback_def updateCredits_def Let_def
        split: option.splits)
qed

lemma fold_step_listeners_initialized:
  "isInitialized w \<or> listeners w = [] \<Longrightarrow>
     isInitialized (fold step ops w) \<or> listeners (fold step ops w) = []"
  by (induction ops arbitrary: w) (simp_all add: step_listeners_initialized)

text \<open>
  C3. The handler tests the \<^verbatim>\<open>isInitialized\<close> of its closure. When that is false it
  writes one warning to the console and returns: state cells, window globals, channels
  and listeners stay as they are, no request goes to the gateway (no read, no update),
  and nothing is queued for later. As for the state cell: in every run of
  initialisations, feed events and debits from the start, no handler is registered at
  all as long as the cell is false, since the handler is registered after
  \<^verbatim>\<open>markInitialized\<close>.
\<close>

theorem debit_before_initialization:
  "onSolutionSuccess_callback False uid sel upd w =
     (Resolved,
      w\<lparr>console := console w @ [Warn ''Attempted to decrement credits before initialization'']\<rparr>)
   \<and> (isInitialized (run ops initial_world) \<or> listeners (run ops initial_world) = [])"
proof -
  have "isInitialized (fold step ops initial_world) \<or> listeners (fold step ops initial_world) = []"
    by (rule fold_step_listeners_initialized) (simp add: initial_world_def)
  then show ?thesis
    by (simp add: onSolutionSuccess_callback_def run_def)
qed







text \<open>
  C7, as the claim states it, fails: a read that fails with a network error is not
  reported. The handler's promise resolves, and the outcome is the one of a read that
  finds no row, down to the console line, which does not carry the error. An update that
  fails resolves as well, after a console line with the error.
\<close>

theorem debit_error_not_reported_counterexample:
  "onSolutionSuccess_callback True ''A'' (failed ''TypeError: Failed to fetch'') (found ''A'')
       signed_in_A =
     (Resolved,
      signed_in_A\<lparr>requests := requests signed_in_A @ [SelectSingle ''A''],
        console := [Error ''No subscription found when trying to decrement credits'']\<rparr>)
   \<and> onSolutionSuccess_callback True ''A'' (failed ''TypeError: Failed to fetch'') (found ''A'')
       signed_in_A =
     onSolutionSuccess_callback True ''A'' \<lparr>data = None, error = None\<rparr> (found ''A'') signed_in_A
   \<and> fst (onSolutionSuccess_callback True ''A'' (found ''A'' 5)
       (refused ''TypeError: Failed to fetch'') signed_in_A) = Resolved"
  unfolding signed_in_A_eq
  by (simp add: onSolutionSuccess_callback_def answer_defs)

text \<open>
  C7, amended. When the read yields no row (the record is absent or the read failed) or
  the update answers with an error, the handler leaves state cells, window globals,
  channels and listeners unchanged, writes one error line to the console (a fixed text
  for the read, the error itself for the update), resolves without a value, and has sent
  the read once and the update at most once.
\<close>

theorem debit_failure_leaves_state:
  "(data sel = None \<longrightarrow>
      onSolutionSuccess_callback True uid sel upd w =
        (Resolved,
         w\<lparr>requests := requests w @ [SelectSingle uid],
           console := console w @
             [Error ''No subscription found when trying to decrement credits'']\<rparr>))
   \<and> (data sel = Some cur \<and> error (upd (row_credits cur - 1)) = Some e \<longrightarrow>
      onSolutionSuccess_callback True uid sel upd w =
        (Resolved,
         w\<lparr>requests := requests w @ [SelectSingle uid, UpdateCredits uid (row_credits cur - 1)],
           console := console w @ [Error (''Error updating credits: '' @ e)]\<rparr>))"
  by (simp add: onSolutionSuccess_callback_def)

theorem debit_failure_leaves_state_witness:
  "data (failed ''TypeError: Failed to fetch'') = None
   \<and> credits (snd (onSolutionSuccess_callback True ''A'' (failed ''TypeError: Failed to fetch'')
        (found ''A'') signed_in_A)) = 5
   \<and> data (found ''A'' 5) = Some (subscription_row ''A'' 5)
   \<and> error (refused ''timeout'' (row_credits (subscription_row ''A'' 5) - 1)) = Some ''timeout''
   \<and> onSolutionSuccess_callback True ''A'' (found ''A'' 5) (refused ''timeout'') signed_in_A =
       (Resolved,
        signed_in_A\<lparr>requests := requests signed_in_A @ [SelectSingle ''A'', UpdateCredits ''A'' 4],
          console := console signed_in_A @ [Error ''Error updating credits: timeout'']\<rparr>)"
  using debit_failure_leaves_state
          [of "failed ''TypeError: Failed to fetch''" "''A''" "found ''A''" signed_in_A
              "subscription_row ''A'' 5" "''timeout''"]
        debit_failure_leaves_state
          [of "found ''A'' 5" "''A''" "refused ''timeout''" signed_in_A
              "subscription_row ''A'' 5" "''timeout''"]
  by (simp add: answer_defs signed_in_A_eq)

section \<open>Initialisation\<close>

text \<open>
  C5. For a user whose row is absent (the read yields no data), the effect of \<^verbatim>\<open>App\<close>
  sets credits 1, language \<^verbatim>\<open>python\<close> and the flag, in the state cells and the window
  globals, subscribes the \<^verbatim>\<open>credits\<close> channel and registers the debit listener, and
  \<^verbatim>\<open>checkSubscriptionAndCredits\<close> of \<^verbatim>\<open>AppContent\<close> sets \<^verbatim>\<open>isSubscribed\<close> to false (and
  the copy of the credits that \<^verbatim>\<open>AppContent\<close> keeps for display to 0). The requests are
  \<^verbatim>\<open>getUser\<close> and the two reads: no update is sent.
\<close>

theorem initialization_absent_record:
  "App_effect (Some uid) \<lparr>data = None, error = e\<rparr> w =
     w\<lparr>credits := 1, currentLanguage := ''python'', isInitialized := True,
       window_CREDITS := Some 1, window_LANGUAGE := Some ''python'',
       window_IS_INITIALIZED := Some True,
       channels := channels w @ [credits_channel uid],
       listeners := listeners w @ [(isInitialized w, uid)],
       requests := requests w @ [GetUser, SelectSingle uid]\<rparr>
   \<and> isSubscribed (checkSubscriptionAndCredits \<lparr>data = None, error = e'\<rparr> w) = False
   \<and> AppContent_credits (checkSubscriptionAndCredits \<lparr>data = None, error = e'\<rparr> w) = Some 0
   \<and> requests (checkSubscriptionAndCredits \<lparr>data = None, error = e'\<rparr> w) \<in>
       {requests w, requests w @ [SelectMaybeSingle (user w)]}"
  by (simp add: App_effect_def initializeAndSubscribe_def updateCredits_def updateLanguage_def
      markInitialized_def checkSubscriptionAndCredits_def)

text \<open>
  C2, as the claim states it, fails: when the initial read fails with a network error,
  initialisation sets the flag and writes the defaults, credits 1 over the initial 0 and
  language \<^verbatim>\<open>python\<close>.
\<close>

theorem initialization_read_failure_counterexample:
  "isInitialized (App_effect (Some ''A'') (failed ''TypeError: Failed to fetch'') initial_world)
   \<and> window_IS_INITIALIZED
        (App_effect (Some ''A'') (failed ''TypeError: Failed to fetch'') initial_world) = Some True
   \<and> credits initial_world = 0
   \<and> credits (App_effect (Some ''A'') (failed ''TypeError: Failed to fetch'') initial_world) = 1
   \<and> window_CREDITS
        (App_effect (Some ''A'') (failed ''TypeError: Failed to fetch'') initial_world) = Some 1
   \<and> window_LANGUAGE
        (App_effect (Some ''A'') (failed ''TypeError: Failed to fetch'') initial_world) =
        Some ''python''"
  by (simp add: App_effect_def initializeAndSubscribe_def updateCredits_def updateLanguage_def
      markInitialized_def failed_def initial_world_def)

text \<open>
  C2, amended. Initialisation never looks at the error of its read: the outcome is the
  one of the same data without an error. A read that fails therefore does what an absent
  row does: credits 1, language \<^verbatim>\<open>python\<close>, the flag set, the channel subscribed and the
  listener registered.
\<close>

theorem initialization_ignores_read_error:
  "initializeAndSubscribe isInit authUser \<lparr>data = d, error = e\<rparr> w =
     initializeAndSubscribe isInit authUser \<lparr>data = d, error = None\<rparr> w
   \<and> fst (initializeAndSubscribe isInit (Some uid) (failed e') w) =
     w\<lparr>credits := 1, currentLanguage := ''python'', isInitialized := True,
       window_CREDITS := Some 1, window_LANGUAGE := Some ''python'',
       window_IS_INITIALIZED := Some True,
       channels := channels w @ [credits_channel uid],
       listeners := listeners w @ [(isInit, uid)],
       requests := requests w @ [GetUser, SelectSingle uid]\<rparr>"
  by (cases authUser)
    (simp_all add: initializeAndSubscribe_def updateCredits_def updateLanguage_def
      markInitialized_def failed_def)

text \<open>
  C10. When \<^verbatim>\<open>getUser\<close> yields no user, initialisation ends with credits 1, language
  \<^verbatim>\<open>python\<close> and the flag set, in the state and in the window globals alike; the only
  request is the \<^verbatim>\<open>getUser\<close> call itself (no read of the subscription row, no update),
  no channel is subscribed and no listener registered, and nothing is returned.
\<close>

theorem initializeAndSubscribe_no_user:
  "initializeAndSubscribe isInit None sel w =
     (w\<lparr>credits := 1, currentLanguage := ''python'', isInitialized := True,
        window_CREDITS := Some 1, window_LANGUAGE := Some ''python'',
        window_IS_INITIALIZED := Some True,
        requests := requests w @ [GetUser]\<rparr>, None)"
  by (simp add: initializeAndSubscribe_def updateCredits_def updateLanguage_def
      markInitialized_def)


section \<open>The floor of the credits\<close>

text \<open>
  C1, as the claim states it, fails. User A's row holds 0 credits; the effect runs twice
  (the second run registers the listener whose closure has the flag true); the debit
  reads 0, asks the gateway to store -1, and writes the -1 the gateway returns.
\<close>

theorem credits_negative_counterexample:
  "credits (run [Initialize (Some ''A'') (found ''A'' 0), Initialize (Some ''A'') (found ''A'' 0),
                 Debit True ''A'' (found ''A'' 0) (found ''A'')] initial_world) = - 1
   \<and> window_CREDITS
       (run [Initialize (Some ''A'') (found ''A'' 0), Initialize (Some ''A'') (found ''A'' 0),
             Debit True ''A'' (found ''A'' 0) (found ''A'')] initial_world) = Some (- 1)
   \<and> requests
       (run [Initialize (Some ''A'') (found ''A'' 0), Initialize (Some ''A'') (found ''A'' 0),
             Debit True ''A'' (found ''A'' 0) (found ''A'')] initial_world) =
       [GetUser, SelectSingle ''A'', GetUser, SelectSingle ''A'',
        SelectSingle ''A'', UpdateCredits ''A'' (- 1)]
   \<and> (True, ''A'') \<in> set (listeners
       (run [Initialize (Some ''A'') (found ''A'' 0), Initialize (Some ''A'') (found ''A'' 0)]
          initial_world))"
  by (simp add: run_def initial_world_def model_defs answer_defs)

lemma step_credits_nonneg:
  assumes "credits_nonneg w" and "nonneg_op op"
  shows "credits_nonneg (step op w)"
proof (cases op)
  case (Initialize authUser sel)
  with assms show ?thesis
    by (cases authUser; cases "data sel")
      (simp_all add: credits_nonneg_def App_effect_def initializeAndSubscribe_def
        updateCredits_def updateLanguage_def markInitialized_def)
next
  case (FeedEvent payload_new)
  with assms show ?thesis
    by (simp add: credits_nonneg_def credits_channel_callback_def updateCredits_def)
next
  case (Debit isInit uid sel upd)
  with assms show ?thesis
    by (simp add: credits_nonneg_def onSolutionSuccess_callback_def updateCredits_def Let_def
        split: option.splits)
qed

text \<open>
  C1, amended. The operations apply no floor of their own; the credits stay at or above
  0, in the state cell and in \<^verbatim>\<open>window.__CREDITS__\<close>, through every run of
  initialisations, feed events and debits in which every credits value handed over by
  the gateway (the initial read, the snapshot of an event, the row returned by the
  update) is at or above 0.
\<close>

theorem credits_nonneg_run:
  "credits_nonneg w \<Longrightarrow> list_all nonneg_op ops \<Longrightarrow> credits_nonneg (run ops w)"
  unfolding run_def
proof (induction ops arbitrary: w)
  case Nil
  then show ?case by simp
next
  case (Cons op ops)
  from Cons.prems have "credits_nonneg (step op w)"
    by (simp add: step_credits_nonneg)
  with Cons show ?case by simp
qed

theorem credits_nonneg_run_witness:
  "credits_nonneg initial_world
   \<and> list_all nonneg_op
        [Initialize (Some ''A'') (found ''A'' 1), FeedEvent (subscription_row ''A'' 1),
         Debit True ''A'' (found ''A'' 1) (found ''A'')]
   \<and> credits_nonneg
        (run [Initialize (Some ''A'') (found ''A'' 1), FeedEvent (subscription_row ''A'' 1),
              Debit True ''A'' (found ''A'' 1) (found ''A'')] initial_world)
   \<and> credits
        (run [Initialize (Some ''A'') (found ''A'' 1), FeedEvent (subscription_row ''A'' 1),
              Debit True ''A'' (found ''A'' 1) (found ''A'')] initial_world) = 0"
proof -
  have w: "credits_nonneg initial_world"
    by (simp add: credits_nonneg_def initial_world_def)
  have ops: "list_all nonneg_op
        [Initialize (Some ''A'') (found ''A'' 1), FeedEvent (subscription_row ''A'' 1),
         Debit True ''A'' (found ''A'' 1) (found ''A'')]"
    by (simp add: answer_defs)
  have "credits
        (run [Initialize (Some ''A'') (found ''A'' 1), FeedEvent (subscription_row ''A'' 1),
              Debit True ''A'' (found ''A'' 1) (found ''A'')] initial_world) = 0"
    by (simp add: run_def initial_world_def model_defs answer_defs)
  with w ops credits_nonneg_run [OF w ops] show ?thesis by simp
qed

section \<open>Feed events\<close>

text \<open>
  C8, as the claim states it, fails in the callback of \<^verbatim>\<open>AppContent\<close>, which on an UPDATE
  event does not copy the snapshot but reads the row again. With A signed in and 5
  credits, an event whose new snapshot holds 4 credits arrives while the gateway already
  answers 3: \<^verbatim>\<open>App\<close> has 4, \<^verbatim>\<open>AppContent\<close> has 3. The same event applied once more while
  the read fails leaves \<^verbatim>\<open>AppContent\<close> with 0 credits and not subscribed. The channel of
  \<^verbatim>\<open>App\<close> takes UPDATE events only: when a row with 50 credits is inserted for a user who
  had none, the credits of \<^verbatim>\<open>App\<close>, state cell and window global, stay at 1.
\<close>

theorem feed_event_reread_counterexample:
  "AppContent_credits
     (postgres_changes (UPDATE (subscription_row ''A'' 5) (subscription_row ''A'' 4))
        (found ''A'' 3) signed_in_A) = Some 3
   \<and> credits
     (postgres_changes (UPDATE (subscription_row ''A'' 5) (subscription_row ''A'' 4))
        (found ''A'' 3) signed_in_A) = 4
   \<and> AppContent_credits
     (postgres_changes (UPDATE (subscription_row ''A'' 5) (subscription_row ''A'' 4))
        (failed ''TypeError: Failed to fetch'')
        (postgres_changes (UPDATE (subscription_row ''A'' 5) (subscription_row ''A'' 4))
           (found ''A'' 3) signed_in_A)) = Some 0
   \<and> isSubscribed
     (postgres_changes (UPDATE (subscription_row ''A'' 5) (subscription_row ''A'' 4))
        (failed ''TypeError: Failed to fetch'')
        (postgres_changes (UPDATE (subscription_row ''A'' 5) (subscription_row ''A'' 4))
           (found ''A'' 3) signed_in_A)) = False
   \<and> credits
     (postgres_changes (INSERT (subscription_row ''A'' 50)) (found ''A'' 50)
        signed_in_without_row) = 1
   \<and> window_CREDITS
     (postgres_changes (INSERT (subscription_row ''A'' 50)) (found ''A'' 50)
        signed_in_without_row) = Some 1
   \<and> AppContent_credits
     (postgres_changes (INSERT (subscription_row ''A'' 50)) (found ''A'' 50)
        signed_in_without_row) = Some 50"
  unfolding signed_in_A_eq signed_in_without_row_eq
  by (simp add: model_defs answer_defs)

lemma credits_channel_callback_twice:
  "credits_channel_callback payload_new (credits_channel_callback payload_new w) =
     credits_channel_callback payload_new w"
  by (simp add: credits_channel_callback_def updateCredits_def)

lemma credits_channel_callback_funpow:
  "(credits_channel_callback payload_new ^^ Suc n) w = credits_channel_callback payload_new w"
proof (induction n)
  case 0
  show ?case by simp
next
  case (Suc n)
  have "(credits_channel_callback payload_new ^^ Suc (Suc n)) w =
          credits_channel_callback payload_new ((credits_channel_callback payload_new ^^ Suc n) w)"
    by simp
  also have "\<dots> = credits_channel_callback payload_new (credits_channel_callback payload_new w)"
    by (simp only: Suc.IH)
  finally show ?case
    by (simp only: credits_channel_callback_twice)
qed

lemma sub_and_credits_callback_twice:
  "sub_and_credits_callback u ev sel (sub_and_credits_callback u ev sel w) =
     (sub_and_credits_callback u ev sel w)
       \<lparr>requests := requests (sub_and_credits_callback u ev sel (sub_and_credits_callback u ev sel w))\<rparr>"
  by (cases ev)
    (simp_all add: sub_and_credits_callback_def setCurrentLanguage_if_truthy_def Let_def
      split: option.splits)

text \<open>
  C8, amended. The callback of the \<^verbatim>\<open>credits\<close> channel of \<^verbatim>\<open>App\<close>, which takes UPDATE
  events only, sets the credits, state cell and window global, to the credits of the
  event's new snapshot, and applying the same event any number of times gives the state
  of applying it once. The callback of
  \<^verbatim>\<open>AppContent\<close> copies the snapshot only for an INSERT event of its user, and leaves
  everything as it is on an INSERT event of another user; on an UPDATE or DELETE event it sets \<^verbatim>\<open>isSubscribed\<close> and its credits from a fresh read of the
  gateway (0 and not subscribed when the read yields no row); applied twice with the
  same answer of the gateway it changes nothing the second time but the list of requests.
\<close>

theorem feed_event_set_idempotent:
  "credits (credits_channel_callback payload_new w) = row_credits payload_new
   \<and> window_CREDITS (credits_channel_callback payload_new w) = Some (row_credits payload_new)
   \<and> (credits_channel_callback payload_new ^^ Suc n) w = credits_channel_callback payload_new w
   \<and> AppContent_credits
       (sub_and_credits_callback (Some (row_user_id new)) (INSERT new) sel w) =
       Some (row_credits new)
   \<and> isSubscribed (sub_and_credits_callback (Some (row_user_id new)) (INSERT new) sel w)
   \<and> (Some (row_user_id other) \<noteq> u \<longrightarrow>
        sub_and_credits_callback u (INSERT other) sel w = w)
   \<and> AppContent_credits (sub_and_credits_callback u (UPDATE old new) sel w) =
       Some (case data sel of None \<Rightarrow> 0 | Some s \<Rightarrow> row_credits s)
   \<and> AppContent_credits (sub_and_credits_callback u (DELETE old) sel w) =
       Some (case data sel of None \<Rightarrow> 0 | Some s \<Rightarrow> row_credits s)
   \<and> isSubscribed (sub_and_credits_callback u (UPDATE old new) sel w) = (data sel \<noteq> None)
   \<and> isSubscribed (sub_and_credits_callback u (DELETE old) sel w) = (data sel \<noteq> None)
   \<and> sub_and_credits_callback u ev sel (sub_and_credits_callback u ev sel w) =
       (sub_and_credits_callback u ev sel w)
         \<lparr>requests :=
            requests (sub_and_credits_callback u ev sel (sub_and_credits_callback u ev sel w))\<rparr>"
proof -
  have app: "credits (credits_channel_callback payload_new w) = row_credits payload_new
      \<and> window_CREDITS (credits_channel_callback payload_new w) = Some (row_credits payload_new)"
    by (simp add: credits_channel_callback_def updateCredits_def)
  have ins: "AppContent_credits
       (sub_and_credits_callback (Some (row_user_id new)) (INSERT new) sel w) =
       Some (row_credits new)
     \<and> isSubscribed (sub_and_credits_callback (Some (row_user_id new)) (INSERT new) sel w)"
    by (simp add: sub_and_credits_callback_def setCurrentLanguage_if_truthy_def
        split: option.splits)
  have upd: "AppContent_credits (sub_and_credits_callback u (UPDATE old new) sel w) =
       Some (case data sel of None \<Rightarrow> 0 | Some s \<Rightarrow> row_credits s)
     \<and> isSubscribed (sub_and_credits_callback u (UPDATE old new) sel w) = (data sel \<noteq> None)"
    by (simp add: sub_and_credits_callback_def setCurrentLanguage_if_truthy_def Let_def
        split: option.splits)
  have del: "AppContent_credits (sub_and_credits_callback u (DELETE old) sel w) =
       Some (case data sel of None \<Rightarrow> 0 | Some s \<Rightarrow> row_credits s)
     \<and> isSubscribed (sub_and_credits_callback u (DELETE old) sel w) = (data sel \<noteq> None)"
    by (simp add: sub_and_credits_callback_def setCurrentLanguage_if_truthy_def Let_def
        split: option.splits)
  have pow: "(credits_channel_callback payload_new ^^ Suc n) w =
      credits_channel_callback payload_new w"
    by (rule credits_channel_callback_funpow)
  have twice: "sub_and_credits_callback u ev sel (sub_and_credits_callback u ev sel w) =
       (sub_and_credits_callback u ev sel w)
         \<lparr>requests :=
            requests (sub_and_credits_callback u ev sel (sub_and_credits_callback u ev sel w))\<rparr>"
    by (rule sub_and_credits_callback_twice)
  have foreign: "Some (row_user_id other) \<noteq> u \<longrightarrow>
        sub_and_credits_callback u (INSERT other) sel w = w"
    by (simp add: sub_and_credits_callback_def)
  from app ins foreign upd del pow twice show ?thesis by blast
qed

theorem feed_event_set_idempotent_witness:
  "Some (row_user_id (subscription_row ''B'' 9)) \<noteq> Some ''A''
   \<and> sub_and_credits_callback (Some ''A'') (INSERT (subscription_row ''B'' 9)) (found ''B'' 9)
        signed_in_A = signed_in_A
   \<and> AppContent_credits
        (sub_and_credits_callback (Some ''A'') (INSERT (subscription_row ''B'' 9)) (found ''B'' 9)
           signed_in_A) = Some 5
   \<and> AppContent_credits
        (sub_and_credits_callback (Some ''A'') (INSERT (subscription_row ''A'' 9)) (found ''A'' 9)
           signed_in_A) = Some 9"
proof -
  have h: "Some (row_user_id (subscription_row ''B'' 9)) \<noteq> Some ''A''"
    and r: "row_user_id (subscription_row ''A'' 9) = ''A''"
      "row_credits (subscription_row ''A'' 9) = 9"
    by (simp_all add: answer_defs)
  have a: "AppContent_credits signed_in_A = Some 5"
    by (simp add: signed_in_A_eq)
  from h r a
    feed_event_set_idempotent
      [where other = "subscription_row ''B'' 9" and u = "Some ''A''" and sel = "found ''B'' 9"
         and w = signed_in_A and new = "subscription_row ''A'' 9"]
    feed_event_set_idempotent
      [where new = "subscription_row ''A'' 9" and sel = "found ''A'' 9" and w = signed_in_A]
  show ?thesis by simp
qed


section \<open>The window globals\<close>

text \<open>
  C9, as the claim states it, fails for the credits of \<^verbatim>\<open>AppContent\<close>, whose feed callback
  never writes \<^verbatim>\<open>window.__CREDITS__\<close>. With A signed in and 5 credits, a DELETE event
  arrives and the read finds no row: \<^verbatim>\<open>AppContent\<close> now holds 0 credits and is not
  subscribed, while the window global, like the cell of \<^verbatim>\<open>App\<close>, still holds 5. Nor do
  the globals follow the cells of \<^verbatim>\<open>App\<close> alone: an UPDATE event to 4 credits and the
  language \<^verbatim>\<open>java\<close> changes the credits of \<^verbatim>\<open>App\<close> and leaves \<^verbatim>\<open>window.__LANGUAGE__\<close> at
  \<^verbatim>\<open>java\<close>, written by \<^verbatim>\<open>AppContent\<close>, beside the language \<^verbatim>\<open>python\<close> of \<^verbatim>\<open>App\<close>.
\<close>

theorem window_credits_stale_counterexample:
  "AppContent_credits
     (postgres_changes (DELETE (subscription_row ''A'' 5)) \<lparr>data = None, error = None\<rparr>
        signed_in_A) = Some 0
   \<and> isSubscribed
     (postgres_changes (DELETE (subscription_row ''A'' 5)) \<lparr>data = None, error = None\<rparr>
        signed_in_A) = False
   \<and> window_CREDITS
     (postgres_changes (DELETE (subscription_row ''A'' 5)) \<lparr>data = None, error = None\<rparr>
        signed_in_A) = Some 5
   \<and> credits
     (postgres_changes (DELETE (subscription_row ''A'' 5)) \<lparr>data = None, error = None\<rparr>
        signed_in_A) = 5
   \<and> credits
     (postgres_changes (UPDATE (subscription_row ''A'' 5) java_row)
        \<lparr>data = Some java_row, error = None\<rparr> signed_in_A) = 4
   \<and> window_LANGUAGE
     (postgres_changes (UPDATE (subscription_row ''A'' 5) java_row)
        \<lparr>data = Some java_row, error = None\<rparr> signed_in_A) = Some ''java''
   \<and> currentLanguage
     (postgres_changes (UPDATE (subscription_row ''A'' 5) java_row)
        \<lparr>data = Some java_row, error = None\<rparr> signed_in_A) = ''python''"
  unfolding signed_in_A_eq
  by (simp add: model_defs answer_defs)

lemma Initialize_mirrored: "mirrored (step (Initialize authUser sel) w)"
  by (cases authUser)
    (simp_all add: mirrored_def App_effect_def initializeAndSubscribe_def updateCredits_def
      updateLanguage_def markInitialized_def Let_def)

lemma step_mirrored:
  assumes "mirrored w"
  shows "mirrored (step op w)"
proof (cases op)
  case (Initialize authUser sel)
  then show ?thesis by (simp only: Initialize_mirrored)
next
  case (FeedEvent payload_new)
  with assms show ?thesis
    by (simp add: mirrored_def credits_channel_callback_def updateCredits_def)
next
  case (Debit isInit uid sel upd)
  with assms show ?thesis
    by (simp add: mirrored_def onSolutionSuccess_callback_def updateCredits_def Let_def
        split: option.splits)
qed

lemma fold_step_mirrored: "mirrored w \<Longrightarrow> mirrored (fold step ops w)"
  by (induction ops arbitrary: w) (simp_all add: step_mirrored)

text \<open>
  C9, amended. Every write of \<^verbatim>\<open>App\<close> to its credits, language or flag goes through a
  helper that writes the window global as well: after an initialisation, and after any
  further initialisations, feed events of the \<^verbatim>\<open>credits\<close> channel and debits, the three
  window globals hold the values of the three state cells of \<^verbatim>\<open>App\<close>. The feed callback
  of \<^verbatim>\<open>AppContent\<close> changes its own credits and leaves alone the cells of \<^verbatim>\<open>App\<close>,
  \<^verbatim>\<open>window.__CREDITS__\<close> and \<^verbatim>\<open>window.__IS_INITIALIZED__\<close>; \<^verbatim>\<open>window.__LANGUAGE__\<close> it
  either leaves alone or sets to the language it writes to its own cell.
\<close>

theorem window_mirrors_App_state:
  "mirrored (run (Initialize authUser sel # ops) w)
   \<and> window_CREDITS (sub_and_credits_callback u ev sel' w) = window_CREDITS w
   \<and> window_IS_INITIALIZED (sub_and_credits_callback u ev sel' w) = window_IS_INITIALIZED w
   \<and> credits (sub_and_credits_callback u ev sel' w) = credits w
   \<and> currentLanguage (sub_and_credits_callback u ev sel' w) = currentLanguage w
   \<and> isInitialized (sub_and_credits_callback u ev sel' w) = isInitialized w
   \<and> window_LANGUAGE (sub_and_credits_callback u ev sel' w) \<in>
       {window_LANGUAGE w, Some (AppContent_currentLanguage (sub_and_credits_callback u ev sel' w))}"
proof -
  have "mirrored (fold step ops (step (Initialize authUser sel) w))"
    by (rule fold_step_mirrored) (rule Initialize_mirrored)
  then have "mirrored (run (Initialize authUser sel # ops) w)"
    by (simp add: run_def)
  moreover have "window_CREDITS (sub_and_credits_callback u ev sel' w) = window_CREDITS w
      \<and> window_IS_INITIALIZED (sub_and_credits_callback u ev sel' w) = window_IS_INITIALIZED w
      \<and> credits (sub_and_credits_callback u ev sel' w) = credits w
      \<and> currentLanguage (sub_and_credits_callback u ev sel' w) = currentLanguage w
      \<and> isInitialized (sub_and_credits_callback u ev sel' w) = isInitialized w"
    by (cases ev)
      (simp_all add: sub_and_credits_callback_def setCurrentLanguage_if_truthy_def Let_def
        split: option.splits)
  moreover have "window_LANGUAGE (sub_and_credits_callback u ev sel' w) \<in>
       {window_LANGUAGE w, Some (AppContent_currentLanguage (sub_and_credits_callback u ev sel' w))}"
    by (cases ev)
      (simp_all add: sub_and_credits_callback_def setCurrentLanguage_if_truthy_def Let_def
        split: option.splits)
  ultimately show ?thesis by simp
qed

section \<open>Switching the identity\<close>

text \<open>
  C4. The cleanup function that unsubscribes the channel, removes the listener and
  resets the flag is returned by the async \<^verbatim>\<open>initializeAndSubscribe\<close>, not by the effect
  callback, so React never calls it; nor does the effect of \<^verbatim>\<open>App\<close> depend on the
  identity. After A (5 credits) signed in and B signed in instead, both \<^verbatim>\<open>credits\<close>
  channels of \<^verbatim>\<open>App\<close> are still subscribed and filtered to A, none is filtered to B, the
  flag was never reset, and an UPDATE event of A's row with 3 credits overwrites the
  credits, state cell and window global. The effect of \<^verbatim>\<open>AppContent\<close>, which returns its
  cleanup, has replaced its channel of A by one of B.
\<close>

theorem identity_switch_keeps_old_feed:
  "channels switched_to_B =
     [credits_channel ''A'', credits_channel ''A'', sub_and_credits_channel (Some ''B'')]
   \<and> user switched_to_B = Some ''B''
   \<and> isInitialized switched_to_B = True
   \<and> credits switched_to_B = 5
   \<and> credits
       (postgres_changes (UPDATE (subscription_row ''A'' 5) (subscription_row ''A'' 3))
          (found ''A'' 3) switched_to_B) = 3
   \<and> window_CREDITS
       (postgres_changes (UPDATE (subscription_row ''A'' 5) (subscription_row ''A'' 3))
          (found ''A'' 3) switched_to_B) = Some 3
   \<and> AppContent_credits
       (postgres_changes (UPDATE (subscription_row ''A'' 5) (subscription_row ''A'' 3))
          (found ''A'' 3) switched_to_B) = Some 7"
  unfolding switched_to_B_eq
  by (simp add: model_defs answer_defs)

end
